theory Spec2Isabelle
  imports Main
begin

section \<open>The document store (mongodb.ts)\<close>

text \<open>
  The server keeps its data in five collections of a document database. A collection is
  modelled as the list of its documents in natural (insertion) order: \<open>insertOne\<close> and an
  upsert that matches nothing append, \<open>findOne\<close> returns the first document that matches,
  \<open>updateOne\<close> changes the first match in place, \<open>deleteOne\<close> removes the first match.
  Identifiers that the code passes around as strings stay strings; the \<open>_id\<close> of a
  document is a value of the driver's \<open>ObjectId\<close> type, here the type parameter \<open>'oid\<close>.
\<close>

type_synonym Date = nat

record 'oid user_doc =
  u_id :: "'oid"
  u_first_name :: string
  u_last_name :: string
  u_avatar_url :: "string option"

record participant_doc =
  p_conversation_id :: string
  p_user_id :: string

record 'oid message_doc =
  m_id :: "'oid"
  m_conversation_id :: string
  m_sender_id :: string
  m_content :: string
  m_created_at :: Date

record reaction_doc =
  r_message_id :: string
  r_user_id :: string
  r_reaction :: string
  r_created_at :: Date

record deletion_doc =
  d_message_id :: string
  d_user_id :: string
  d_deleted_for_everyone :: bool

record 'oid database =
  users :: "'oid user_doc list"
  conversation_participants :: "participant_doc list"
  messages :: "'oid message_doc list"
  message_reactions :: "reaction_doc list"
  message_deletions :: "deletion_doc list"

text \<open>\<open>updateOne(filter, {$set: ...}, {upsert: true})\<close>: the first document matching the
  filter is updated; when none matches, the document \<open>ins\<close> (the filter's fields together
  with the fields that are set) is inserted.\<close>

fun updateOne_upsert :: "('a \<Rightarrow> bool) \<Rightarrow> ('a \<Rightarrow> 'a) \<Rightarrow> 'a \<Rightarrow> 'a list \<Rightarrow> 'a list" where
  "updateOne_upsert q upd ins [] = [ins]"
| "updateOne_upsert q upd ins (x # xs) =
     (if q x then upd x # xs else x # updateOne_upsert q upd ins xs)"

fun deleteOne :: "('a \<Rightarrow> bool) \<Rightarrow> 'a list \<Rightarrow> 'a list" where
  "deleteOne q [] = []"
| "deleteOne q (x # xs) = (if q x then xs else x # deleteOne q xs)"

section \<open>Libraries the server calls\<close>

text \<open>
  Three library functions decide branches of the code and are not part of the repository:
  \<open>jwt.verify(token, JWT_SECRET)\<close>, which returns the \<open>userId\<close> of the token's payload or
  throws; \<open>new ObjectId(str)\<close>, which throws on a string that is no object id; and
  \<open>ObjectId.toString()\<close>. They are parameters of the model.
\<close>

record 'oid env =
  jwt_verify :: "string \<Rightarrow> string option"
  ObjectId :: "string \<Rightarrow> 'oid option"
  toString :: "'oid \<Rightarrow> string"

datatype error =
  Authentication_required | Invalid_token | Database_not_connected | Invalid_ObjectId

section \<open>Server state (socket.ts)\<close>

record sender_view =
  sv_id :: string
  sv_first_name :: string
  sv_last_name :: string
  sv_avatar_url :: "string option"

record new_message_payload =
  nm_id :: string
  nm_conversation_id :: string
  nm_sender_id :: string
  nm_content :: string
  nm_created_at :: Date
  nm_sender :: "sender_view option"
  nm_reactions :: "(string \<times> string) list"

datatype event =
  User_online string
| User_offline string
| New_message new_message_payload
| Message_reaction_updated string "(string \<times> string) list"
| Message_deleted string bool
| User_typing string string

text \<open>A connected socket: its id, the \<open>socket.data.userId\<close> set by the middleware, and the
  rooms it has joined (socket.io puts every socket into the room named by its own id).\<close>

record socket =
  sock_id :: string
  sock_userId :: string
  sock_rooms :: "string list"

text \<open>
  \<open>db\<close> is the module variable of mongodb.ts (unset until \<open>connectMongoDB\<close> has run),
  \<open>onlineUsers\<close> the presence map of socket.ts, \<open>sockets\<close> the connections the socket.io
  server holds, and \<open>sent\<close> the log of deliveries: which socket was sent which event, in
  order.
\<close>

record 'oid state =
  db :: "'oid database option"
  onlineUsers :: "string \<rightharpoonup> string"
  sockets :: "socket list"
  sent :: "(string \<times> event) list"

definition getDb :: "'oid state \<Rightarrow> error + 'oid database" where
  "getDb s = (case db s of None \<Rightarrow> Inl Database_not_connected | Some d \<Rightarrow> Inr d)"

definition isConversationParticipant :: "'oid state \<Rightarrow> string \<Rightarrow> string \<Rightarrow> error + bool" where
  "isConversationParticipant s userId conversationId =
     (case getDb s of
        Inl e \<Rightarrow> Inl e
      | Inr d \<Rightarrow>
          Inr (find (\<lambda>p. p_conversation_id p = conversationId \<and> p_user_id p = userId)
                 (conversation_participants d) \<noteq> None))"

subsection \<open>Emitting\<close>

text \<open>\<open>io.emit\<close> reaches every connected socket, \<open>io.to(room).emit\<close> every socket in the
  room, \<open>socket.emit\<close> the socket itself, \<open>socket.to(room).emit\<close> every socket in the room
  but the socket itself.\<close>

definition room_of :: "string \<Rightarrow> string" where
  "room_of conversationId = ''conversation_'' @ conversationId"

definition in_room :: "string \<Rightarrow> socket \<Rightarrow> bool" where
  "in_room room c = (room \<in> set (sock_rooms c))"

definition io_emit :: "event \<Rightarrow> 'oid state \<Rightarrow> 'oid state" where
  "io_emit ev s = s\<lparr>sent := sent s @ map (\<lambda>c. (sock_id c, ev)) (sockets s)\<rparr>"

definition io_to_emit :: "string \<Rightarrow> event \<Rightarrow> 'oid state \<Rightarrow> 'oid state" where
  "io_to_emit room ev s =
     s\<lparr>sent := sent s @ map (\<lambda>c. (sock_id c, ev)) (filter (in_room room) (sockets s))\<rparr>"

definition socket_emit :: "socket \<Rightarrow> event \<Rightarrow> 'oid state \<Rightarrow> 'oid state" where
  "socket_emit c ev s = s\<lparr>sent := sent s @ [(sock_id c, ev)]\<rparr>"

definition socket_to_emit :: "socket \<Rightarrow> string \<Rightarrow> event \<Rightarrow> 'oid state \<Rightarrow> 'oid state" where
  "socket_to_emit c room ev s =
     s\<lparr>sent := sent s @ map (\<lambda>x. (sock_id x, ev))
        (filter (\<lambda>x. in_room room x \<and> sock_id x \<noteq> sock_id c) (sockets s))\<rparr>"

definition socket_join :: "string \<Rightarrow> string \<Rightarrow> 'oid state \<Rightarrow> 'oid state" where
  "socket_join sid room s =
     s\<lparr>sockets := map (\<lambda>x. if sock_id x = sid \<and> \<not> in_room room x
                              then x\<lparr>sock_rooms := sock_rooms x @ [room]\<rparr> else x) (sockets s)\<rparr>"

subsection \<open>Handshake and connection\<close>

text \<open>The middleware of \<open>io.use\<close>: a missing or empty token (\<open>!token\<close>) and a token that
  \<open>jwt.verify\<close> rejects both end in \<open>next(new Error(...))\<close>.\<close>

definition auth_middleware :: "'oid env \<Rightarrow> string option \<Rightarrow> error + string" where
  "auth_middleware E token =
     (case token of
        None \<Rightarrow> Inl Authentication_required
      | Some t \<Rightarrow>
          if t = [] then Inl Authentication_required
          else (case jwt_verify E t of
                  None \<Rightarrow> Inl Invalid_token
                | Some userId \<Rightarrow> Inr userId))"

text \<open>The \<open>connection\<close> callback, run once socket.io has registered the socket.\<close>

definition on_connection :: "string \<Rightarrow> string \<Rightarrow> 'oid state \<Rightarrow> 'oid state" where
  "on_connection sid userId s =
     (let s1 = s\<lparr>sockets := sockets s @ [\<lparr>sock_id = sid, sock_userId = userId, sock_rooms = [sid]\<rparr>]\<rparr>;
          s2 = s1\<lparr>onlineUsers := (onlineUsers s1)(userId \<mapsto> sid)\<rparr>
      in io_emit (User_online userId) s2)"

text \<open>A connection attempt: the error handed to \<open>next\<close>, if any, and the state after.\<close>

definition connect :: "'oid env \<Rightarrow> string \<Rightarrow> string option \<Rightarrow> 'oid state \<Rightarrow> error option \<times> 'oid state" where
  "connect E sid token s =
     (case auth_middleware E token of
        Inl e \<Rightarrow> (Some e, s)
      | Inr userId \<Rightarrow> (None, on_connection sid userId s))"

text \<open>The sender's fields copied into a message (\<open>sender ? {...} : null\<close>, written out in
  \<open>send_message\<close> and in the history fetch alike).\<close>

definition sender_view_of :: "'oid env \<Rightarrow> 'oid user_doc \<Rightarrow> sender_view" where
  "sender_view_of E u =
     \<lparr>sv_id = toString E (u_id u), sv_first_name = u_first_name u,
      sv_last_name = u_last_name u, sv_avatar_url = u_avatar_url u\<rparr>"

subsection \<open>Event handlers of a connected socket\<close>

text \<open>
  Each handler is given the socket \<open>c\<close> it was registered on (its \<open>userId\<close> is the one of
  the closure) and returns the exception it threw, if any, with the state it left. The
  handlers other than \<open>join_conversation\<close> catch the exception and log it; in both cases the
  writes made before the throw stay. Object ids and dates that the code draws
  (\<open>insertedId\<close>, \<open>new Date()\<close>) are arguments.
\<close>

definition join_conversation :: "socket \<Rightarrow> string \<Rightarrow> 'oid state \<Rightarrow> error option \<times> 'oid state" where
  "join_conversation c conversationId s =
     (case isConversationParticipant s (sock_userId c) conversationId of
        Inl e \<Rightarrow> (Some e, s)
      | Inr isParticipant \<Rightarrow>
          (None, if isParticipant then socket_join (sock_id c) (room_of conversationId) s else s))"

definition send_message ::
  "'oid env \<Rightarrow> 'oid \<Rightarrow> Date \<Rightarrow> Date \<Rightarrow> socket \<Rightarrow> string \<Rightarrow> string \<Rightarrow> 'oid state
     \<Rightarrow> error option \<times> 'oid state" where
  "send_message E insertedId t_insert t_emit c conversationId content s =
     (case isConversationParticipant s (sock_userId c) conversationId of
        Inl e \<Rightarrow> (Some e, s)
      | Inr isParticipant \<Rightarrow>
          if \<not> isParticipant then (None, s)
          else
            (case getDb s of
               Inl e \<Rightarrow> (Some e, s)
             | Inr d \<Rightarrow>
                 let s1 = s\<lparr>db := Some (d\<lparr>messages := messages d @
                            [\<lparr>m_id = insertedId, m_conversation_id = conversationId,
                              m_sender_id = sock_userId c, m_content = content,
                              m_created_at = t_insert\<rparr>]\<rparr>)\<rparr>
                 in (case ObjectId E (sock_userId c) of
                       None \<Rightarrow> (Some Invalid_ObjectId, s1)
                     | Some uo \<Rightarrow>
                         let sender = find (\<lambda>u. u_id u = uo) (users d)
                         in (None,
                             io_to_emit (room_of conversationId)
                               (New_message
                                  \<lparr>nm_id = toString E insertedId,
                                   nm_conversation_id = conversationId,
                                   nm_sender_id = sock_userId c,
                                   nm_content = content,
                                   nm_created_at = t_emit,
                                   nm_sender = map_option (sender_view_of E) sender,
                                   nm_reactions = []\<rparr>) s1))))"

definition reaction_key :: "string \<Rightarrow> string \<Rightarrow> reaction_doc \<Rightarrow> bool" where
  "reaction_key messageId userId r = (r_message_id r = messageId \<and> r_user_id r = userId)"

text \<open>The write of \<open>react_message\<close>. \<open>!data.reaction\<close> holds of \<open>null\<close> and of the empty
  string: both remove the user's reaction; any other string is upserted.\<close>

definition write_reaction :: "Date \<Rightarrow> string \<Rightarrow> string \<Rightarrow> string option \<Rightarrow> reaction_doc list \<Rightarrow> reaction_doc list" where
  "write_reaction t messageId userId reaction rs =
     (case reaction of
        None \<Rightarrow> deleteOne (reaction_key messageId userId) rs
      | Some k \<Rightarrow>
          if k = [] then deleteOne (reaction_key messageId userId) rs
          else updateOne_upsert (reaction_key messageId userId)
                 (\<lambda>r. r\<lparr>r_reaction := k, r_created_at := t\<rparr>)
                 \<lparr>r_message_id = messageId, r_user_id = userId, r_reaction = k, r_created_at = t\<rparr>
                 rs)"

definition react_message ::
  "Date \<Rightarrow> socket \<Rightarrow> string \<Rightarrow> string \<Rightarrow> string option \<Rightarrow> 'oid state
     \<Rightarrow> error option \<times> 'oid state" where
  "react_message t c messageId conversationId reaction s =
     (case isConversationParticipant s (sock_userId c) conversationId of
        Inl e \<Rightarrow> (Some e, s)
      | Inr isParticipant \<Rightarrow>
          if \<not> isParticipant then (None, s)
          else
            (case getDb s of
               Inl e \<Rightarrow> (Some e, s)
             | Inr d \<Rightarrow>
                 let rs = write_reaction t messageId (sock_userId c) reaction (message_reactions d);
                     s1 = s\<lparr>db := Some (d\<lparr>message_reactions := rs\<rparr>)\<rparr>;
                     reactions = filter (\<lambda>r. r_message_id r = messageId) rs
                 in (None,
                     io_to_emit (room_of conversationId)
                       (Message_reaction_updated messageId
                          (map (\<lambda>r. (r_user_id r, r_reaction r)) reactions)) s1)))"

definition deletion_key :: "string \<Rightarrow> string \<Rightarrow> deletion_doc \<Rightarrow> bool" where
  "deletion_key messageId userId x = (d_message_id x = messageId \<and> d_user_id x = userId)"

definition upsert_deletion :: "string \<Rightarrow> string \<Rightarrow> bool \<Rightarrow> 'oid database \<Rightarrow> 'oid database" where
  "upsert_deletion messageId userId forEveryone d =
     d\<lparr>message_deletions :=
         updateOne_upsert (deletion_key messageId userId)
           (\<lambda>x. x\<lparr>d_message_id := messageId, d_user_id := userId,
                  d_deleted_for_everyone := forEveryone\<rparr>)
           \<lparr>d_message_id = messageId, d_user_id = userId, d_deleted_for_everyone = forEveryone\<rparr>
           (message_deletions d)\<rparr>"

definition delete_message ::
  "'oid env \<Rightarrow> socket \<Rightarrow> string \<Rightarrow> string \<Rightarrow> bool \<Rightarrow> 'oid state \<Rightarrow> error option \<times> 'oid state" where
  "delete_message E c messageId conversationId forEveryone s =
     (case isConversationParticipant s (sock_userId c) conversationId of
        Inl e \<Rightarrow> (Some e, s)
      | Inr isParticipant \<Rightarrow>
          if \<not> isParticipant then (None, s)
          else
            (case getDb s of
               Inl e \<Rightarrow> (Some e, s)
             | Inr d \<Rightarrow>
                 if forEveryone then
                   (case ObjectId E messageId of
                      None \<Rightarrow> (Some Invalid_ObjectId, s)
                    | Some oid \<Rightarrow>
                        (case find (\<lambda>m. m_id m = oid) (messages d) of
                           None \<Rightarrow> (None, s)
                         | Some msg \<Rightarrow>
                             if m_sender_id msg \<noteq> sock_userId c then (None, s)
                             else
                               (None,
                                io_to_emit (room_of conversationId)
                                  (Message_deleted messageId True)
                                  (s\<lparr>db := Some (upsert_deletion messageId (sock_userId c) True d)\<rparr>))))
                 else
                   (None,
                    socket_emit c (Message_deleted messageId False)
                      (s\<lparr>db := Some (upsert_deletion messageId (sock_userId c) False d)\<rparr>))))"

definition typing :: "socket \<Rightarrow> string \<Rightarrow> 'oid state \<Rightarrow> 'oid state" where
  "typing c conversationId s =
     socket_to_emit c (room_of conversationId)
       (User_typing (sock_userId c) conversationId) s"

text \<open>On a disconnect socket.io first takes the socket out of its rooms and of the server,
  then runs the \<open>disconnect\<close> callback.\<close>

definition on_disconnect :: "socket \<Rightarrow> 'oid state \<Rightarrow> 'oid state" where
  "on_disconnect c s =
     io_emit (User_offline (sock_userId c))
       (s\<lparr>onlineUsers := (onlineUsers s)(sock_userId c := None)\<rparr>)"

definition disconnect :: "socket \<Rightarrow> 'oid state \<Rightarrow> 'oid state" where
  "disconnect c s =
     on_disconnect c (s\<lparr>sockets := filter (\<lambda>x. sock_id x \<noteq> sock_id c) (sockets s)\<rparr>)"

subsection \<open>Dispatch\<close>

datatype client_event =
  Join_conversation string
| Send_message string string
| React_message string string "string option"
| Delete_message string string bool
| Typing string
| Disconnect

text \<open>What the code draws from its surroundings while it handles one event.\<close>

record 'oid drawn =
  insertedId :: "'oid"
  date1 :: Date
  date2 :: Date

text \<open>An event arriving on the connection \<open>sid\<close>. Handlers exist only on sockets that went
  through the \<open>connection\<close> callback; for any other id nothing runs.\<close>

definition receive :: "'oid env \<Rightarrow> 'oid drawn \<Rightarrow> string \<Rightarrow> client_event \<Rightarrow> 'oid state \<Rightarrow> 'oid state" where
  "receive E x sid ev s =
     (case find (\<lambda>c. sock_id c = sid) (sockets s) of
        None \<Rightarrow> s
      | Some c \<Rightarrow>
          (case ev of
             Join_conversation conversationId \<Rightarrow> snd (join_conversation c conversationId s)
           | Send_message conversationId content \<Rightarrow>
               snd (send_message E (insertedId x) (date1 x) (date2 x) c conversationId content s)
           | React_message messageId conversationId reaction \<Rightarrow>
               snd (react_message (date1 x) c messageId conversationId reaction s)
           | Delete_message messageId conversationId forEveryone \<Rightarrow>
               snd (delete_message E c messageId conversationId forEveryone s)
           | Typing conversationId \<Rightarrow> typing c conversationId s
           | Disconnect \<Rightarrow> disconnect c s))"

section \<open>History fetch (routes/messages.ts, GET /conversation/:id)\<close>

record message_view =
  v_id :: string
  v_conversation_id :: string
  v_content :: string
  v_created_at :: Date
  v_sender :: "sender_view option"
  v_reactions :: "(string \<times> string) list"
  v_deleted_for_everyone :: bool

datatype response = Json "message_view list" | Status403 | Status500

definition placeholder :: string where
  "placeholder = ''[Message deleted]''"

text \<open>The callback mapped over the messages: \<open>Inl\<close> when it throws, \<open>Inr None\<close> for the
  \<open>null\<close> that the final \<open>filter(Boolean)\<close> drops (\<open>map_filter\<close> below).\<close>

definition enrich :: "'oid env \<Rightarrow> 'oid database \<Rightarrow> string \<Rightarrow> 'oid message_doc \<Rightarrow> error + message_view option" where
  "enrich E d userId m =
     (case ObjectId E (m_sender_id m) of
        None \<Rightarrow> Inl Invalid_ObjectId
      | Some so \<Rightarrow>
          let sender = find (\<lambda>u. u_id u = so) (users d);
              reactions = filter (\<lambda>r. r_message_id r = toString E (m_id m)) (message_reactions d);
              deletion = find (\<lambda>x. d_message_id x = toString E (m_id m) \<and>
                                    (d_user_id x = userId \<or> d_deleted_for_everyone x))
                           (message_deletions d);
              everyone = (case deletion of None \<Rightarrow> False | Some x \<Rightarrow> d_deleted_for_everyone x)
          in if (case deletion of
                   None \<Rightarrow> False
                 | Some x \<Rightarrow> \<not> d_deleted_for_everyone x \<and> d_user_id x = userId)
             then Inr None
             else Inr (Some
                    \<lparr>v_id = toString E (m_id m),
                     v_conversation_id = m_conversation_id m,
                     v_content = (if everyone then placeholder else m_content m),
                     v_created_at = m_created_at m,
                     v_sender = map_option (sender_view_of E) sender,
                     v_reactions = map (\<lambda>r. (r_user_id r, r_reaction r)) reactions,
                     v_deleted_for_everyone = everyone\<rparr>))"

text \<open>\<open>Promise.all\<close>: the first rejection rejects the whole.\<close>

fun all_settled :: "(error + 'a) list \<Rightarrow> error + 'a list" where
  "all_settled [] = Inr []"
| "all_settled (Inl e # rs) = Inl e"
| "all_settled (Inr v # rs) = (case all_settled rs of Inl e \<Rightarrow> Inl e | Inr vs \<Rightarrow> Inr (v # vs))"

definition get_conversation :: "'oid env \<Rightarrow> 'oid state \<Rightarrow> string \<Rightarrow> string \<Rightarrow> response" where
  "get_conversation E s userId conversationId =
     (case getDb s of
        Inl e \<Rightarrow> Status500
      | Inr d \<Rightarrow>
          (case find (\<lambda>p. p_conversation_id p = conversationId \<and> p_user_id p = userId)
                  (conversation_participants d) of
             None \<Rightarrow> Status403
           | Some participant \<Rightarrow>
               let msgs = sort_key m_created_at
                            (filter (\<lambda>m. m_conversation_id m = conversationId) (messages d))
               in (case all_settled (map (enrich E d userId) msgs) of
                     Inl e \<Rightarrow> Status500
                   | Inr enrichedMessages \<Rightarrow>
                       Json (List.map_filter (\<lambda>v. v) enrichedMessages))))"

section \<open>An instance for the examples\<close>

text \<open>
  The examples run the model with these stand-ins for the libraries: a token
  \<open>token:u\<close> verifies to the user id \<open>u\<close> and nothing else verifies; the object ids are the
  strings of 24 lower-case hexadecimal digits, printed as themselves.
\<close>

definition hex_digit :: "char \<Rightarrow> bool" where
  "hex_digit ch = (ch \<in> set ''0123456789abcdef'')"

definition demo_env :: "string env" where
  "demo_env =
     \<lparr>jwt_verify = (\<lambda>t. if take 6 t = ''token:'' then Some (drop 6 t) else None),
      ObjectId = (\<lambda>str. if length str = 24 \<and> list_all hex_digit str then Some str else None),
      toString = (\<lambda>oid. oid)\<rparr>"

definition token_of :: "string \<Rightarrow> string" where
  "token_of userId = ''token:'' @ userId"

definition alice :: string where "alice = ''64b000000000000000000001''"
definition bob :: string where "bob = ''64b000000000000000000002''"
definition carol :: string where "carol = ''64b000000000000000000003''"
definition conv1 :: string where "conv1 = ''64c000000000000000000001''"
definition ghost :: string where "ghost = ''64d000000000000000000009''"
definition msg1 :: string where "msg1 = ''64d000000000000000000001''"

text \<open>Alice, Bob and Carol take part in one conversation, in which Alice has sent one
  message. Alice and Bob are connected and have joined the conversation's room; Carol is
  not connected.\<close>

definition demo_db :: "string database" where
  "demo_db =
     \<lparr>users =
        [\<lparr>u_id = alice, u_first_name = ''Alice'', u_last_name = ''A'', u_avatar_url = None\<rparr>,
         \<lparr>u_id = bob, u_first_name = ''Bob'', u_last_name = ''B'', u_avatar_url = None\<rparr>,
         \<lparr>u_id = carol, u_first_name = ''Carol'', u_last_name = ''C'', u_avatar_url = None\<rparr>],
      conversation_participants =
        [\<lparr>p_conversation_id = conv1, p_user_id = alice\<rparr>,
         \<lparr>p_conversation_id = conv1, p_user_id = bob\<rparr>,
         \<lparr>p_conversation_id = conv1, p_user_id = carol\<rparr>],
      messages =
        [\<lparr>m_id = msg1, m_conversation_id = conv1, m_sender_id = alice, m_content = ''hi'',
          m_created_at = 1\<rparr>],
      message_reactions = [],
      message_deletions = []\<rparr>"

definition sockA :: socket where
  "sockA = \<lparr>sock_id = ''sA'', sock_userId = alice, sock_rooms = [''sA'', room_of conv1]\<rparr>"

definition sockB :: socket where
  "sockB = \<lparr>sock_id = ''sB'', sock_userId = bob, sock_rooms = [''sB'', room_of conv1]\<rparr>"

definition demo_state :: "string state" where
  "demo_state =
     \<lparr>db = Some demo_db,
      onlineUsers = [alice \<mapsto> ''sA'', bob \<mapsto> ''sB''],
      sockets = [sockA, sockB],
      sent = []\<rparr>"

definition demo_drawn :: "string drawn" where
  "demo_drawn = \<lparr>insertedId = ''64d000000000000000000002'', date1 = 7, date2 = 8\<rparr>"

text \<open>Bob opens a second connection while his first one is still there.\<close>

definition sockB2 :: socket where
  "sockB2 = \<lparr>sock_id = ''sB2'', sock_userId = bob, sock_rooms = [''sB2'']\<rparr>"

definition two_devices :: "string state" where
  "two_devices = snd (connect demo_env ''sB2'' (Some (token_of bob)) demo_state)"

text \<open>Bob has reacted to Alice's message.\<close>

definition bob_reacted :: "string state" where
  "bob_reacted =
     receive demo_env demo_drawn ''sB'' (React_message msg1 conv1 (Some ''heart'')) demo_state"

text \<open>Alice deletes her message for everyone and then Bob deletes it for himself; and the
  same two requests in the other order.\<close>

definition everyone_then_me :: "string state" where
  "everyone_then_me =
     receive demo_env demo_drawn ''sB'' (Delete_message msg1 conv1 False)
       (receive demo_env demo_drawn ''sA'' (Delete_message msg1 conv1 True) demo_state)"

definition me_then_everyone :: "string state" where
  "me_then_everyone =
     receive demo_env demo_drawn ''sA'' (Delete_message msg1 conv1 True)
       (receive demo_env demo_drawn ''sB'' (Delete_message msg1 conv1 False) demo_state)"

section \<open>Facts about the example instance\<close>

lemma demo_ObjectId:
  "ObjectId demo_env alice = Some alice"
  "ObjectId demo_env bob = Some bob"
  "ObjectId demo_env carol = Some carol"
  "ObjectId demo_env msg1 = Some msg1"
  "ObjectId demo_env ghost = Some ghost"
  by (simp_all add: demo_env_def alice_def bob_def carol_def msg1_def ghost_def hex_digit_def)

lemma demo_jwt_verify: "jwt_verify demo_env (token_of u) = Some u"
  by (simp add: demo_env_def token_of_def)

lemma token_of_nonempty: "token_of u \<noteq> []"
  by (simp add: token_of_def)

lemma demo_distinct:
  "alice \<noteq> bob" "alice \<noteq> carol" "bob \<noteq> carol"
  "bob \<noteq> alice" "carol \<noteq> alice" "carol \<noteq> bob" "ghost \<noteq> msg1" "msg1 \<noteq> ghost"
  by (simp_all add: alice_def bob_def carol_def msg1_def ghost_def)

lemma demo_socket:
  "find (\<lambda>c. sock_id c = ''sA'') (sockets demo_state) = Some sockA"
  "find (\<lambda>c. sock_id c = ''sB'') (sockets demo_state) = Some sockB"
  by (simp_all add: demo_state_def sockA_def sockB_def)

lemma demo_participant:
  "find (\<lambda>p. p_conversation_id p = conv1 \<and> p_user_id p = sock_userId sockA)
     (conversation_participants demo_db) \<noteq> None"
  "find (\<lambda>p. p_conversation_id p = conv1 \<and> p_user_id p = sock_userId sockB)
     (conversation_participants demo_db) \<noteq> None"
  by (simp_all add: demo_db_def sockA_def sockB_def demo_distinct)

lemma demo_db_connected: "db demo_state = Some demo_db"
  by (simp add: demo_state_def)

lemma demo_fields:
  "sent demo_state = []" "sockets demo_state = [sockA, sockB]"
  "sock_userId sockA = alice" "sock_userId sockB = bob"
  "sock_id sockA = ''sA''" "sock_id sockB = ''sB''"
  "in_room (room_of conv1) sockA" "in_room (room_of conv1) sockB"
  by (simp_all add: demo_state_def sockA_def sockB_def in_room_def)

lemma demo_message:
  "find (\<lambda>m. m_id m = msg1) (messages demo_db) =
     Some \<lparr>m_id = msg1, m_conversation_id = conv1, m_sender_id = alice,
           m_content = ''hi'', m_created_at = 1\<rparr>"
  by (simp add: demo_db_def)

lemma demo_history_inputs:
  "toString demo_env = (\<lambda>oid. oid)"
  "find (\<lambda>p. p_conversation_id p = conv1 \<and> p_user_id p = bob) (conversation_participants demo_db) =
     Some \<lparr>p_conversation_id = conv1, p_user_id = bob\<rparr>"
  "filter (\<lambda>m. m_conversation_id m = conv1) (messages demo_db) =
     [\<lparr>m_id = msg1, m_conversation_id = conv1, m_sender_id = alice, m_content = ''hi'',
       m_created_at = 1\<rparr>]"
  "find (\<lambda>u. u_id u = alice) (users demo_db) =
     Some \<lparr>u_id = alice, u_first_name = ''Alice'', u_last_name = ''A'', u_avatar_url = None\<rparr>"
  "message_reactions demo_db = []"
  by (simp_all add: demo_env_def demo_db_def demo_distinct)

section \<open>Store operations\<close>

lemma find_updateOne_upsert:
  assumes "q ins" and "\<And>x. q x \<Longrightarrow> q (upd x)"
  shows "find q (updateOne_upsert q upd ins xs) =
           Some (case find q xs of None \<Rightarrow> ins | Some x \<Rightarrow> upd x)"
  using assms by (induction xs) auto

lemma filter_updateOne_upsert:
  assumes "q ins" and "\<And>x. q x \<Longrightarrow> q (upd x)"
  shows "filter q (updateOne_upsert q upd ins xs) =
           (case filter q xs of [] \<Rightarrow> [ins] | y # ys \<Rightarrow> upd y # ys)"
  using assms by (induction xs) auto

lemma filter_other_updateOne_upsert:
  assumes "\<And>x. p x \<Longrightarrow> \<not> q x" and "\<not> p ins" and "\<And>x. q x \<Longrightarrow> \<not> p (upd x)"
  shows "filter p (updateOne_upsert q upd ins xs) = filter p xs"
  using assms by (induction xs) auto

lemma filter_deleteOne:
  "filter q (deleteOne q xs) = tl (filter q xs)"
  by (induction xs) auto

lemma filter_other_deleteOne:
  assumes "\<And>x. p x \<Longrightarrow> \<not> q x"
  shows "filter p (deleteOne q xs) = filter p xs"
  using assms by (induction xs) auto

lemma find_socket_id: "find (\<lambda>c. sock_id c = sid) cs = Some c \<Longrightarrow> sock_id c = sid"
  by (auto simp: find_Some_iff)

section \<open>Connection authentication\<close>

text \<open>
  Claim C4. A connection attempt that presents no token (or an empty one), or a token that
  fails verification, is refused with an authentication error and leaves the whole server
  state as it was: no presence entry, no socket, no room membership. Since the socket was
  never registered, no handler runs for it: any event arriving under its id changes
  nothing.
\<close>

theorem refused_connection_changes_nothing:
  assumes "token = None \<or> token = Some [] \<or> (\<exists>t. token = Some t \<and> jwt_verify E t = None)"
  shows "(\<exists>e. connect E sid token s = (Some e, s) \<and>
              (e = Authentication_required \<or> e = Invalid_token)) \<and>
         (find (\<lambda>c. sock_id c = sid) (sockets s) = None \<longrightarrow>
            (\<forall>x ev. receive E x sid ev (snd (connect E sid token s)) = s))"
  using assms
  by (auto simp: connect_def auth_middleware_def receive_def split: option.splits)

theorem refused_connection_changes_nothing_witness:
  "connect demo_env ''sD'' (Some ''forged'') demo_state = (Some Invalid_token, demo_state) \<and>
   receive demo_env demo_drawn ''sD'' (Join_conversation conv1)
     (snd (connect demo_env ''sD'' (Some ''forged'') demo_state)) = demo_state"
proof -
  have h1: "Some ''forged'' = None \<or> Some ''forged'' = Some [] \<or>
            (\<exists>t. Some ''forged'' = Some t \<and> jwt_verify demo_env t = None)"
    by (simp add: demo_env_def)
  have h2: "find (\<lambda>c. sock_id c = ''sD'') (sockets demo_state) = None"
    by (simp add: demo_state_def sockA_def sockB_def)
  have h3: "connect demo_env ''sD'' (Some ''forged'') demo_state \<noteq>
            (Some Authentication_required, demo_state)"
    by (simp add: connect_def auth_middleware_def demo_env_def)
  from refused_connection_changes_nothing [OF h1, of "''sD''" demo_state] h2 h3
  show ?thesis by auto
qed

text \<open>
  Claim C3, as the code has it. When an authenticated user connects, the user is recorded
  in the presence mapping under the new socket and \<open>user_online\<close> is sent with \<open>io.emit\<close>: to
  every socket that was connected before and to the new socket itself.
\<close>

theorem connection_announces_to_all:
  assumes "token = Some t" and "t \<noteq> []" and "jwt_verify E t = Some userId"
  shows "fst (connect E sid token s) = None \<and>
         onlineUsers (snd (connect E sid token s)) userId = Some sid \<and>
         sent (snd (connect E sid token s)) =
           sent s @ map (\<lambda>c. (sock_id c, User_online userId)) (sockets s) @
             [(sid, User_online userId)] \<and>
         sock_id ` set (sockets (snd (connect E sid token s))) =
           insert sid (sock_id ` set (sockets s))"
  using assms
  by (auto simp: connect_def auth_middleware_def on_connection_def io_emit_def Let_def)

theorem connection_announces_to_all_witness:
  "onlineUsers (snd (connect demo_env ''sC'' (Some (token_of carol)) demo_state)) carol =
     Some ''sC'' \<and>
   (''sC'', User_online carol) \<in>
     set (sent (snd (connect demo_env ''sC'' (Some (token_of carol)) demo_state)))"
proof -
  from connection_announces_to_all [OF refl token_of_nonempty demo_jwt_verify,
         where sid = "''sC''" and s = demo_state]
  show ?thesis by simp
qed

text \<open>
  The claim as written says that the new connection is left out. It is not: when Carol
  connects on socket \<open>sC\<close>, the event goes to Alice's socket, to Bob's and to \<open>sC\<close>.
\<close>

theorem new_connection_receives_user_online:
  "sent (snd (connect demo_env ''sC'' (Some (token_of carol)) demo_state)) =
     [(''sA'', User_online carol), (''sB'', User_online carol), (''sC'', User_online carol)]"
  by (simp add: connect_def auth_middleware_def demo_jwt_verify token_of_nonempty
        on_connection_def io_emit_def demo_state_def sockA_def sockB_def)

section \<open>Presence on disconnect\<close>

lemma two_devices_eq:
  "two_devices =
     \<lparr>db = Some demo_db, onlineUsers = [alice \<mapsto> ''sA'', bob \<mapsto> ''sB2''],
      sockets = [sockA, sockB, sockB2],
      sent = [(''sA'', User_online bob), (''sB'', User_online bob), (''sB2'', User_online bob)]\<rparr>"
  by (simp add: two_devices_def connect_def auth_middleware_def demo_jwt_verify
        token_of_nonempty on_connection_def io_emit_def demo_state_def sockA_def sockB_def
        sockB2_def)

text \<open>
  Claim C9. When a socket authenticated as user U disconnects, U's entry is removed from
  the presence mapping whatever socket the entry names, and \<open>user_offline\<close> is sent to
  every connection that remains. In particular any other connection of U stays connected
  while U has no presence entry any more.
\<close>

theorem disconnect_removes_presence_unconditionally:
  assumes "find (\<lambda>c. sock_id c = sid) (sockets s) = Some c"
  shows "onlineUsers (receive E x sid Disconnect s) = (onlineUsers s)(sock_userId c := None) \<and>
         sockets (receive E x sid Disconnect s) = filter (\<lambda>y. sock_id y \<noteq> sid) (sockets s) \<and>
         sent (receive E x sid Disconnect s) =
           sent s @ map (\<lambda>y. (sock_id y, User_offline (sock_userId c)))
                      (filter (\<lambda>y. sock_id y \<noteq> sid) (sockets s)) \<and>
         (\<forall>c' \<in> set (sockets s). sock_userId c' = sock_userId c \<and> sock_id c' \<noteq> sid \<longrightarrow>
            c' \<in> set (sockets (receive E x sid Disconnect s)) \<and>
            onlineUsers (receive E x sid Disconnect s) (sock_userId c') = None)"
proof -
  from assms have "sock_id c = sid"
    by (auto simp: find_Some_iff)
  with assms show ?thesis
    by (auto simp: receive_def disconnect_def on_disconnect_def io_emit_def)
qed

text \<open>Bob's first socket \<open>sB\<close> is stale once he has connected on \<open>sB2\<close>; when \<open>sB\<close>
  disconnects, Bob is reported offline although \<open>sB2\<close> is live.\<close>

theorem disconnect_removes_presence_unconditionally_witness:
  "onlineUsers two_devices bob = Some ''sB2'' \<and>
   onlineUsers (receive demo_env demo_drawn ''sB'' Disconnect two_devices) bob = None \<and>
   sockB2 \<in> set (sockets (receive demo_env demo_drawn ''sB'' Disconnect two_devices)) \<and>
   (''sB2'', User_offline bob) \<in>
     set (sent (receive demo_env demo_drawn ''sB'' Disconnect two_devices))"
proof -
  have h: "find (\<lambda>c. sock_id c = ''sB'') (sockets two_devices) = Some sockB"
    by (simp add: two_devices_eq sockA_def sockB_def)
  from disconnect_removes_presence_unconditionally [OF h, of demo_env demo_drawn]
  show ?thesis
    by (simp add: two_devices_eq sockA_def sockB_def sockB2_def)
qed

section \<open>Deleting a message\<close>

text \<open>A request to delete for everyone changes nothing unless the message is found and was
  sent by the requester.\<close>

lemma delete_for_everyone_dropped:
  assumes "\<And>d oid m. db s = Some d \<Longrightarrow> ObjectId E messageId = Some oid \<Longrightarrow>
             find (\<lambda>m. m_id m = oid) (messages d) = Some m \<Longrightarrow> m_sender_id m \<noteq> sock_userId c"
  shows "snd (delete_message E c messageId conversationId True s) = s"
  using assms
  by (auto simp: delete_message_def isConversationParticipant_def getDb_def
           split: option.splits sum.splits)

text \<open>
  Claim C2. A \<open>delete_message\<close> event with \<open>forEveryone = true\<close> from a participant who is
  not the sender of the message is a no-op: the state after is the state before, so no
  deletion marker is written for anyone, nothing is sent to any connection, and every
  viewer's history of the conversation is what it was.
\<close>

theorem non_sender_delete_for_everyone_is_noop:
  assumes "find (\<lambda>c. sock_id c = sid) (sockets s) = Some c"
    and "db s = Some d"
    and "find (\<lambda>p. p_conversation_id p = conversationId \<and> p_user_id p = sock_userId c)
           (conversation_participants d) \<noteq> None"
    and "ObjectId E messageId = Some oid"
    and "find (\<lambda>m. m_id m = oid) (messages d) = Some msg"
    and "m_sender_id msg \<noteq> sock_userId c"
  shows "receive E x sid (Delete_message messageId conversationId True) s = s \<and>
         db (receive E x sid (Delete_message messageId conversationId True) s) = Some d \<and>
         sent (receive E x sid (Delete_message messageId conversationId True) s) = sent s \<and>
         (\<forall>viewer. get_conversation E
                      (receive E x sid (Delete_message messageId conversationId True) s)
                      viewer conversationId =
                    get_conversation E s viewer conversationId)"
proof -
  have "snd (delete_message E c messageId conversationId True s) = s"
    using assms by (intro delete_for_everyone_dropped) auto
  with assms(1) have "receive E x sid (Delete_message messageId conversationId True) s = s"
    by (simp add: receive_def)
  with assms(2) show ?thesis by simp
qed

theorem non_sender_delete_for_everyone_is_noop_witness:
  "receive demo_env demo_drawn ''sB'' (Delete_message msg1 conv1 True) demo_state = demo_state \<and>
   (\<exists>v. get_conversation demo_env
      (receive demo_env demo_drawn ''sB'' (Delete_message msg1 conv1 True) demo_state) bob conv1 = Json [v]
      \<and> v_content v = ''hi'' \<and> \<not> v_deleted_for_everyone v)"
proof -
  have m: "find (\<lambda>m. m_id m = msg1) (messages demo_db) =
             Some \<lparr>m_id = msg1, m_conversation_id = conv1, m_sender_id = alice,
                   m_content = ''hi'', m_created_at = 1\<rparr>"
    by (simp add: demo_db_def)
  have n: "m_sender_id \<lparr>m_id = msg1, m_conversation_id = conv1, m_sender_id = alice,
                   m_content = ''hi'', m_created_at = 1\<rparr> \<noteq> sock_userId sockB"
    by (simp add: sockB_def demo_distinct)
  have g: "\<exists>v. get_conversation demo_env demo_state bob conv1 = Json [v] \<and> v_content v = ''hi'' \<and> \<not> v_deleted_for_everyone v"
    by (simp add: get_conversation_def getDb_def demo_state_def demo_db_def demo_distinct
          enrich_def demo_ObjectId List.map_filter_simps sender_view_of_def)
  from non_sender_delete_for_everyone_is_noop [OF demo_socket(2) demo_db_connected demo_participant(2) demo_ObjectId(4) m n,
        of demo_drawn] g
  show ?thesis by simp
qed


text \<open>
  Claim C10. A \<open>delete_message\<close> event with \<open>forEveryone = true\<close> from a participant, naming
  an id under which the store holds no message (the id parses to no stored \<open>_id\<close>, or does
  not parse at all), is dropped: no deletion marker is written and nothing is sent.
\<close>

theorem delete_for_everyone_of_missing_message_is_dropped:
  assumes "find (\<lambda>c. sock_id c = sid) (sockets s) = Some c"
    and "db s = Some d"
    and "find (\<lambda>p. p_conversation_id p = conversationId \<and> p_user_id p = sock_userId c)
           (conversation_participants d) \<noteq> None"
    and "\<not> (\<exists>oid. ObjectId E messageId = Some oid \<and> oid \<in> m_id ` set (messages d))"
  shows "receive E x sid (Delete_message messageId conversationId True) s = s \<and>
         db (receive E x sid (Delete_message messageId conversationId True) s) = Some d \<and>
         sent (receive E x sid (Delete_message messageId conversationId True) s) = sent s"
proof -
  have "snd (delete_message E c messageId conversationId True s) = s"
  proof (rule delete_for_everyone_dropped)
    fix d' oid m
    assume "db s = Some d'" "ObjectId E messageId = Some oid"
      "find (\<lambda>m. m_id m = oid) (messages d') = Some m"
    with assms(2,4) show "m_sender_id m \<noteq> sock_userId c"
      by (auto simp: find_Some_iff)
  qed
  with assms(1) have "receive E x sid (Delete_message messageId conversationId True) s = s"
    by (simp add: receive_def)
  with assms(2) show ?thesis by simp
qed

theorem delete_for_everyone_of_missing_message_is_dropped_witness:
  "receive demo_env demo_drawn ''sA'' (Delete_message ghost conv1 True) demo_state = demo_state"
proof -
  have h: "\<not> (\<exists>oid. ObjectId demo_env ghost = Some oid \<and> oid \<in> m_id ` set (messages demo_db))"
    by (simp add: demo_ObjectId demo_db_def demo_distinct)
  from delete_for_everyone_of_missing_message_is_dropped [OF demo_socket(1) demo_db_connected demo_participant(1) h, of demo_drawn]
  show ?thesis by simp
qed


text \<open>
  Claim C8. A \<open>delete_message\<close> event with \<open>forEveryone = false\<close> from a participant upserts
  the marker keyed by (message, requester) with the flag false: afterwards the first marker
  under that key is exactly that one, a marker is added only if there was none, and the
  markers under other keys are untouched. The \<open>message_deleted\<close> event is the only delivery
  and goes to the requester's own connection.
\<close>

theorem delete_for_me_reaches_requester_only:
  assumes "find (\<lambda>c. sock_id c = sid) (sockets s) = Some c"
    and "db s = Some d"
    and "find (\<lambda>p. p_conversation_id p = conversationId \<and> p_user_id p = sock_userId c)
           (conversation_participants d) \<noteq> None"
  shows "\<exists>d'. db (receive E x sid (Delete_message messageId conversationId False) s) = Some d' \<and>
           find (deletion_key messageId (sock_userId c)) (message_deletions d') =
             Some \<lparr>d_message_id = messageId, d_user_id = sock_userId c, d_deleted_for_everyone = False\<rparr> \<and>
           filter (\<lambda>x. \<not> deletion_key messageId (sock_userId c) x) (message_deletions d') =
             filter (\<lambda>x. \<not> deletion_key messageId (sock_userId c) x) (message_deletions d) \<and>
           length (filter (deletion_key messageId (sock_userId c)) (message_deletions d')) =
             max 1 (length (filter (deletion_key messageId (sock_userId c)) (message_deletions d))) \<and>
           sent (receive E x sid (Delete_message messageId conversationId False) s) =
             sent s @ [(sid, Message_deleted messageId False)]"
proof -
  let ?k = "deletion_key messageId (sock_userId c)"
  let ?ins = "\<lparr>d_message_id = messageId, d_user_id = sock_userId c, d_deleted_for_everyone = False\<rparr>"
  let ?upd = "\<lambda>x. x\<lparr>d_message_id := messageId, d_user_id := sock_userId c, d_deleted_for_everyone := False\<rparr>"
  have id: "sock_id c = sid" using assms(1) by (rule find_socket_id)
  have r: "receive E x sid (Delete_message messageId conversationId False) s =
        socket_emit c (Message_deleted messageId False)
          (s\<lparr>db := Some (upsert_deletion messageId (sock_userId c) False d)\<rparr>)"
    using assms by (auto simp: receive_def delete_message_def isConversationParticipant_def getDb_def)
  have k: "?k ?ins" "\<And>x. ?k x \<Longrightarrow> ?k (?upd x)" by (simp_all add: deletion_key_def)
  have u: "\<And>x. ?upd x = ?ins" by simp
  have f: "find ?k (updateOne_upsert ?k ?upd ?ins (message_deletions d)) = Some ?ins"
    by (simp add: find_updateOne_upsert [where q = ?k and upd = ?upd and ins = ?ins, OF k] split: option.splits)
  have o: "filter (\<lambda>x. \<not> ?k x) (updateOne_upsert ?k ?upd ?ins (message_deletions d)) =
        filter (\<lambda>x. \<not> ?k x) (message_deletions d)"
    by (rule filter_other_updateOne_upsert) (simp_all add: deletion_key_def)
  have l: "length (filter ?k (updateOne_upsert ?k ?upd ?ins (message_deletions d))) =
        max 1 (length (filter ?k (message_deletions d)))"
    by (simp add: filter_updateOne_upsert [where q = ?k and upd = ?upd and ins = ?ins, OF k] split: list.splits)
  show ?thesis
    unfolding r using f o l id by (simp add: socket_emit_def upsert_deletion_def)
qed


theorem delete_for_me_reaches_requester_only_witness:
  "db (receive demo_env demo_drawn ''sB'' (Delete_message msg1 conv1 False) demo_state) =
     Some (demo_db\<lparr>message_deletions :=
        [\<lparr>d_message_id = msg1, d_user_id = bob, d_deleted_for_everyone = False\<rparr>]\<rparr>) \<and>
   sent (receive demo_env demo_drawn ''sB'' (Delete_message msg1 conv1 False) demo_state) =
     [(''sB'', Message_deleted msg1 False)]"
proof -
  have e: "sent demo_state = []" "sock_userId sockB = bob"
    by (simp_all add: demo_state_def sockB_def)
  have d: "db (receive demo_env demo_drawn ''sB'' (Delete_message msg1 conv1 False) demo_state) =
     Some (demo_db\<lparr>message_deletions :=
        [\<lparr>d_message_id = msg1, d_user_id = bob, d_deleted_for_everyone = False\<rparr>]\<rparr>)"
    using demo_participant(2)
    by (simp add: receive_def demo_socket delete_message_def isConversationParticipant_def
          getDb_def demo_db_connected socket_emit_def upsert_deletion_def e)
       (simp add: demo_db_def)
  from delete_for_me_reaches_requester_only [OF demo_socket(2) demo_db_connected demo_participant(2), of demo_env demo_drawn msg1] d e
  show ?thesis by simp
qed


section \<open>Sending a message\<close>

text \<open>
  Claim C5. When a participant's \<open>send_message\<close> is persisted (the store is connected and
  the sender's id is a well-formed object id, as every id issued at login is), one
  \<open>new_message\<close> event is sent to every connection that has joined the conversation's room
  and to no other; the sender's own connection gets it if it is in the room. The event
  carries the id of the inserted message, the content, the sender's profile as stored (none
  if the user record is gone) and an empty reaction list. The message is appended to the
  store.
\<close>

theorem send_message_broadcasts_to_room:
  assumes "find (\<lambda>c. sock_id c = sid) (sockets s) = Some c"
    and "db s = Some d"
    and "find (\<lambda>p. p_conversation_id p = conversationId \<and> p_user_id p = sock_userId c)
           (conversation_participants d) \<noteq> None"
    and "ObjectId E (sock_userId c) = Some uo"
    and "payload = \<lparr>nm_id = toString E (insertedId x), nm_conversation_id = conversationId,
                    nm_sender_id = sock_userId c, nm_content = content,
                    nm_created_at = date2 x,
                    nm_sender = map_option (sender_view_of E) (find (\<lambda>u. u_id u = uo) (users d)),
                    nm_reactions = []\<rparr>"
  shows "sent (receive E x sid (Send_message conversationId content) s) =
           sent s @ map (\<lambda>y. (sock_id y, New_message payload))
                      (filter (in_room (room_of conversationId)) (sockets s)) \<and>
         (in_room (room_of conversationId) c \<longrightarrow>
            (sid, New_message payload) \<in> set (sent (receive E x sid (Send_message conversationId content) s))) \<and>
         db (receive E x sid (Send_message conversationId content) s) =
           Some (d\<lparr>messages := messages d @
                   [\<lparr>m_id = insertedId x, m_conversation_id = conversationId,
                     m_sender_id = sock_userId c, m_content = content,
                     m_created_at = date1 x\<rparr>]\<rparr>)"
proof -
  from assms(1) have c: "c \<in> set (sockets s)" "sock_id c = sid"
    by (auto simp: find_Some_iff)
  have r: "receive E x sid (Send_message conversationId content) s =
        io_to_emit (room_of conversationId) (New_message payload)
          (s\<lparr>db := Some (d\<lparr>messages := messages d @
                   [\<lparr>m_id = insertedId x, m_conversation_id = conversationId,
                     m_sender_id = sock_userId c, m_content = content,
                     m_created_at = date1 x\<rparr>]\<rparr>)\<rparr>)"
    using assms
    by (auto simp: receive_def send_message_def isConversationParticipant_def getDb_def Let_def)
  show ?thesis unfolding r using c by (auto simp: io_to_emit_def)
qed


theorem send_message_broadcasts_to_room_witness:
  "sent (receive demo_env demo_drawn ''sA'' (Send_message conv1 ''yo'') demo_state) =
     [(''sA'', New_message
         \<lparr>nm_id = insertedId demo_drawn, nm_conversation_id = conv1, nm_sender_id = alice,
          nm_content = ''yo'', nm_created_at = 8,
          nm_sender = Some \<lparr>sv_id = alice, sv_first_name = ''Alice'', sv_last_name = ''A'',
                            sv_avatar_url = None\<rparr>,
          nm_reactions = []\<rparr>),
      (''sB'', New_message
         \<lparr>nm_id = insertedId demo_drawn, nm_conversation_id = conv1, nm_sender_id = alice,
          nm_content = ''yo'', nm_created_at = 8,
          nm_sender = Some \<lparr>sv_id = alice, sv_first_name = ''Alice'', sv_last_name = ''A'',
                            sv_avatar_url = None\<rparr>,
          nm_reactions = []\<rparr>)]"
proof -
  have u: "find (\<lambda>u. u_id u = alice) (users demo_db) =
             Some \<lparr>u_id = alice, u_first_name = ''Alice'', u_last_name = ''A'', u_avatar_url = None\<rparr>"
    by (simp add: demo_db_def)
  have o: "ObjectId demo_env (sock_userId sockA) = Some alice"
    by (simp add: demo_fields demo_ObjectId)
  have t: "toString demo_env = (\<lambda>oid. oid)" "date2 demo_drawn = 8"
    by (simp_all add: demo_env_def demo_drawn_def)
  from send_message_broadcasts_to_room [OF demo_socket(1) demo_db_connected demo_participant(1) o refl,
        of demo_drawn "''yo''"]
  have "sent (receive demo_env demo_drawn ''sA'' (Send_message conv1 ''yo'') demo_state) =
      sent demo_state @ map (\<lambda>y. (sock_id y, New_message
         \<lparr>nm_id = toString demo_env (insertedId demo_drawn), nm_conversation_id = conv1,
          nm_sender_id = sock_userId sockA, nm_content = ''yo'', nm_created_at = date2 demo_drawn,
          nm_sender = map_option (sender_view_of demo_env) (find (\<lambda>u. u_id u = alice) (users demo_db)),
          nm_reactions = []\<rparr>)) (filter (in_room (room_of conv1)) (sockets demo_state))"
    by (rule conjunct1)
  then show ?thesis
    by (simp add: demo_fields u t sender_view_of_def)
qed


section \<open>Reactions\<close>

lemma react_message_step:
  assumes "find (\<lambda>c. sock_id c = sid) (sockets s) = Some c"
    and "db s = Some d"
    and "find (\<lambda>p. p_conversation_id p = conversationId \<and> p_user_id p = sock_userId c)
           (conversation_participants d) \<noteq> None"
    and "rs = write_reaction (date1 x) messageId (sock_userId c) reaction (message_reactions d)"
  shows "receive E x sid (React_message messageId conversationId reaction) s =
           io_to_emit (room_of conversationId)
             (Message_reaction_updated messageId
                (map (\<lambda>r. (r_user_id r, r_reaction r)) (filter (\<lambda>r. r_message_id r = messageId) rs)))
             (s\<lparr>db := Some (d\<lparr>message_reactions := rs\<rparr>)\<rparr>)"
  using assms
  by (auto simp: receive_def react_message_def isConversationParticipant_def getDb_def Let_def)

lemma write_reaction_set:
  assumes "k \<noteq> []" and "length (filter (reaction_key m u) rs) \<le> 1"
  shows "\<exists>r. filter (reaction_key m u) (write_reaction t m u (Some k) rs) = [r] \<and>
             r_message_id r = m \<and> r_user_id r = u \<and> r_reaction r = k"
proof -
  let ?q = "reaction_key m u"
  let ?upd = "\<lambda>r. r\<lparr>r_reaction := k, r_created_at := t\<rparr>"
  let ?ins = "\<lparr>r_message_id = m, r_user_id = u, r_reaction = k, r_created_at = t\<rparr>"
  have q: "?q ?ins" "\<And>x. ?q x \<Longrightarrow> ?q (?upd x)"
    by (simp_all add: reaction_key_def)
  have w: "write_reaction t m u (Some k) rs = updateOne_upsert ?q ?upd ?ins rs"
    using assms(1) by (simp add: write_reaction_def)
  have f: "filter ?q (updateOne_upsert ?q ?upd ?ins rs) =
          (case filter ?q rs of [] \<Rightarrow> [?ins] | y # ys \<Rightarrow> ?upd y # ys)"
    by (rule filter_updateOne_upsert [where q = ?q and upd = ?upd and ins = ?ins, OF q])
  show ?thesis
  proof (cases "filter ?q rs")
    case Nil
    with f w have "filter ?q (write_reaction t m u (Some k) rs) = [?ins]" by simp
    then show ?thesis by simp
  next
    case (Cons y ys)
    then have "y \<in> set (filter ?q rs)" by simp
    then have y: "?q y" by simp
    from Cons assms(2) have "ys = []" by simp
    with Cons f w have "filter ?q (write_reaction t m u (Some k) rs) = [?upd y]" by simp
    moreover from y have "r_message_id (?upd y) = m" "r_user_id (?upd y) = u" "r_reaction (?upd y) = k"
      by (simp_all add: reaction_key_def)
    ultimately show ?thesis by blast
  qed
qed

lemma write_reaction_unset:
  assumes "reaction = None \<or> reaction = Some []"
    and "length (filter (reaction_key m u) rs) \<le> 1"
  shows "write_reaction t m u reaction rs = deleteOne (reaction_key m u) rs"
    and "filter (reaction_key m u) (write_reaction t m u reaction rs) = []"
proof -
  show w: "write_reaction t m u reaction rs = deleteOne (reaction_key m u) rs"
    using assms(1) by (auto simp: write_reaction_def)
  have "tl (filter (reaction_key m u) rs) = []"
    using assms(2) by (cases "filter (reaction_key m u) rs") auto
  then show "filter (reaction_key m u) (write_reaction t m u reaction rs) = []"
    by (simp add: w filter_deleteOne)
qed

text \<open>The write of \<open>react_message\<close> keeps the uniqueness that the index on
  (\<open>message_id\<close>, \<open>user_id\<close>) stands for, under every key.\<close>

lemma write_reaction_keeps_unique:
  assumes "length (filter (reaction_key m u) rs) \<le> 1"
  shows "length (filter (reaction_key m u) (write_reaction t m0 u0 reaction rs)) \<le> 1"
proof (cases "m = m0 \<and> u = u0")
  case True
  show ?thesis
  proof (cases "reaction = None \<or> reaction = Some []")
    case True
    with \<open>m = m0 \<and> u = u0\<close> assms show ?thesis
      using write_reaction_unset(2) [of reaction m u rs t] by simp
  next
    case False
    then obtain k where "reaction = Some k" "k \<noteq> []" by auto
    with \<open>m = m0 \<and> u = u0\<close> assms show ?thesis
      using write_reaction_set [of k m u rs t] by auto
  qed
next
  case False
  then have other: "\<And>x. reaction_key m u x \<Longrightarrow> \<not> reaction_key m0 u0 x"
    by (auto simp: reaction_key_def)
  have "filter (reaction_key m u) (write_reaction t m0 u0 reaction rs) =
          filter (reaction_key m u) rs"
  proof (cases "reaction = None \<or> reaction = Some []")
    case True
    then have "write_reaction t m0 u0 reaction rs = deleteOne (reaction_key m0 u0) rs"
      by (auto simp: write_reaction_def)
    then show ?thesis
      by (simp add: filter_other_deleteOne [OF other])
  next
    case False
    then obtain k where k: "reaction = Some k" "k \<noteq> []" by auto
    have w: "write_reaction t m0 u0 reaction rs =
               updateOne_upsert (reaction_key m0 u0)
                 (\<lambda>r. r\<lparr>r_reaction := k, r_created_at := t\<rparr>)
                 \<lparr>r_message_id = m0, r_user_id = u0, r_reaction = k, r_created_at = t\<rparr> rs"
      using k by (simp add: write_reaction_def)
    show ?thesis
      unfolding w
    proof (rule filter_other_updateOne_upsert [OF other])
      show "\<not> reaction_key m u
                \<lparr>r_message_id = m0, r_user_id = u0, r_reaction = k, r_created_at = t\<rparr>"
        using \<open>\<not> (m = m0 \<and> u = u0)\<close> by (auto simp: reaction_key_def)
      show "\<not> reaction_key m u (x\<lparr>r_reaction := k, r_created_at := t\<rparr>)"
        if "reaction_key m0 u0 x" for x
        using that \<open>\<not> (m = m0 \<and> u = u0)\<close> by (auto simp: reaction_key_def)
    qed
  qed
  with assms show ?thesis by simp
qed


lemma bob_reacted_eq:
  "bob_reacted =
     \<lparr>db = Some (demo_db\<lparr>message_reactions :=
              [\<lparr>r_message_id = msg1, r_user_id = bob, r_reaction = ''heart'', r_created_at = 7\<rparr>]\<rparr>),
      onlineUsers = [alice \<mapsto> ''sA'', bob \<mapsto> ''sB''],
      sockets = [sockA, sockB],
      sent = [(''sA'', Message_reaction_updated msg1 [(bob, ''heart'')]),
              (''sB'', Message_reaction_updated msg1 [(bob, ''heart'')])]\<rparr>"
proof -
  have w: "write_reaction (date1 demo_drawn) msg1 (sock_userId sockB) (Some ''heart'')
             (message_reactions demo_db) =
           [\<lparr>r_message_id = msg1, r_user_id = bob, r_reaction = ''heart'', r_created_at = 7\<rparr>]"
    by (simp add: write_reaction_def demo_db_def demo_fields demo_drawn_def)
  show ?thesis
    unfolding bob_reacted_def
    by (simp add: react_message_step [OF demo_socket(2) demo_db_connected demo_participant(2) w [symmetric]]
          io_to_emit_def demo_fields)
       (simp add: demo_state_def)
qed

text \<open>
  Claim C6, as the code has it. With at most one reaction record per (message, user) in the
  store (the unique index of mongodb.ts), two \<open>react_message\<close> events of a participant with
  two different kinds that are neither \<open>null\<close> nor the empty string leave exactly one
  record for the pair, and its kind is the second one.
\<close>

theorem react_twice_last_write_wins:
  assumes "find (\<lambda>c. sock_id c = sid) (sockets s) = Some c"
    and "db s = Some d"
    and "find (\<lambda>p. p_conversation_id p = conv1' \<and> p_user_id p = sock_userId c)
           (conversation_participants d) \<noteq> None"
    and "find (\<lambda>p. p_conversation_id p = conv2' \<and> p_user_id p = sock_userId c)
           (conversation_participants d) \<noteq> None"
    and "k1 \<noteq> []" and "k2 \<noteq> []" and "k1 \<noteq> k2"
    and "length (filter (reaction_key messageId (sock_userId c)) (message_reactions d)) \<le> 1"
  shows "\<exists>d2 r. db (receive E x2 sid (React_message messageId conv2' (Some k2))
                     (receive E x1 sid (React_message messageId conv1' (Some k1)) s)) = Some d2 \<and>
           filter (reaction_key messageId (sock_userId c)) (message_reactions d2) = [r] \<and>
           r_message_id r = messageId \<and> r_user_id r = sock_userId c \<and> r_reaction r = k2"
proof -
  let ?u = "sock_userId c"
  define rs1 where "rs1 = write_reaction (date1 x1) messageId ?u (Some k1) (message_reactions d)"
  define s1 where "s1 = receive E x1 sid (React_message messageId conv1' (Some k1)) s"
  define rs2 where "rs2 = write_reaction (date1 x2) messageId ?u (Some k2) rs1"
  have s1: "s1 = io_to_emit (room_of conv1')
             (Message_reaction_updated messageId
                (map (\<lambda>r. (r_user_id r, r_reaction r)) (filter (\<lambda>r. r_message_id r = messageId) rs1)))
             (s\<lparr>db := Some (d\<lparr>message_reactions := rs1\<rparr>)\<rparr>)"
    unfolding s1_def by (rule react_message_step [OF assms(1,2,3) rs1_def])
  have sock1: "find (\<lambda>c. sock_id c = sid) (sockets s1) = Some c"
    and db1: "db s1 = Some (d\<lparr>message_reactions := rs1\<rparr>)"
    using assms(1) by (simp_all add: s1 io_to_emit_def)
  have p1: "find (\<lambda>p. p_conversation_id p = conv2' \<and> p_user_id p = ?u)
              (conversation_participants (d\<lparr>message_reactions := rs1\<rparr>)) \<noteq> None"
    using assms(4) by simp
  have rs2': "rs2 = write_reaction (date1 x2) messageId ?u (Some k2)
                  (message_reactions (d\<lparr>message_reactions := rs1\<rparr>))"
    by (simp add: rs2_def)
  have s2: "db (receive E x2 sid (React_message messageId conv2' (Some k2)) s1) =
          Some (d\<lparr>message_reactions := rs2\<rparr>)"
    by (simp add: react_message_step [OF sock1 db1 p1 rs2'] io_to_emit_def)
  from write_reaction_set [OF assms(5,8), of "date1 x1"]
  have "length (filter (reaction_key messageId ?u) rs1) \<le> 1"
    by (auto simp: rs1_def)
  from write_reaction_set [OF assms(6) this, of "date1 x2"]
  obtain r where "filter (reaction_key messageId ?u) rs2 = [r]"
      "r_message_id r = messageId" "r_user_id r = ?u" "r_reaction r = k2"
    by (auto simp: rs2_def)
  with s2 show ?thesis
    by (auto simp: s1_def)
qed

theorem react_twice_last_write_wins_witness:
  "''heart'' \<noteq> [] \<and> ''laugh'' \<noteq> [] \<and> ''heart'' \<noteq> ''laugh'' \<and>
   (\<exists>d2 r. db (receive demo_env demo_drawn ''sB'' (React_message msg1 conv1 (Some ''laugh''))
                 (receive demo_env demo_drawn ''sB'' (React_message msg1 conv1 (Some ''heart''))
                    demo_state)) = Some d2 \<and>
            filter (reaction_key msg1 bob) (message_reactions d2) = [r] \<and>
            r_reaction r = ''laugh'')"
proof -
  have k: "''heart'' \<noteq> []" "''laugh'' \<noteq> []" "''heart'' \<noteq> ''laugh''"
    by simp_all
  have u: "length (filter (reaction_key msg1 (sock_userId sockB)) (message_reactions demo_db)) \<le> 1"
    by (simp add: demo_db_def)
  from react_twice_last_write_wins [OF demo_socket(2) demo_db_connected demo_participant(2) demo_participant(2) k u,
        of demo_env demo_drawn demo_drawn]
  show ?thesis
    by (auto simp: demo_fields)
qed


text \<open>
  Claim C6 as written asks only that the kinds are not \<open>null\<close>. The empty string is not
  \<open>null\<close>, yet \<open>!data.reaction\<close> holds of it: after Bob's \<open>heart\<close>, a reaction with the
  empty string as its kind leaves no record at all.
\<close>

theorem empty_reaction_kind_removes_record:
  "map_option message_reactions (db bob_reacted) =
     Some [\<lparr>r_message_id = msg1, r_user_id = bob, r_reaction = ''heart'', r_created_at = 7\<rparr>] \<and>
   map_option message_reactions
     (db (receive demo_env demo_drawn ''sB'' (React_message msg1 conv1 (Some [])) bob_reacted)) =
     Some []"
proof -
  let ?d = "demo_db\<lparr>message_reactions :=
              [\<lparr>r_message_id = msg1, r_user_id = bob, r_reaction = ''heart'', r_created_at = 7\<rparr>]\<rparr>"
  have s: "find (\<lambda>c. sock_id c = ''sB'') (sockets bob_reacted) = Some sockB"
    by (simp add: bob_reacted_eq demo_fields)
  have d: "db bob_reacted = Some ?d"
    by (simp add: bob_reacted_eq)
  have p: "find (\<lambda>p. p_conversation_id p = conv1 \<and> p_user_id p = sock_userId sockB)
             (conversation_participants ?d) \<noteq> None"
    using demo_participant(2) by simp
  have w: "[] = write_reaction (date1 demo_drawn) msg1 (sock_userId sockB) (Some [])
                  (message_reactions ?d)"
    by (simp add: write_reaction_def reaction_key_def demo_fields)
  show ?thesis
    by (simp add: react_message_step [OF s d p w] io_to_emit_def d)
qed


text \<open>
  Claim C7. With at most one reaction record per (message, user), a \<open>react_message\<close> event
  with kind \<open>null\<close> from a participant removes the user's record for the message, and the
  reaction list sent to the room by that event, which is the list read back from the store,
  has no entry for the user.
\<close>

theorem null_reaction_removes_record:
  assumes "find (\<lambda>c. sock_id c = sid) (sockets s) = Some c"
    and "db s = Some d"
    and "find (\<lambda>p. p_conversation_id p = conversationId \<and> p_user_id p = sock_userId c)
           (conversation_participants d) \<noteq> None"
    and "length (filter (reaction_key messageId (sock_userId c)) (message_reactions d)) \<le> 1"
  shows "\<exists>d' rs. db (receive E x sid (React_message messageId conversationId None) s) = Some d' \<and>
           message_reactions d' = deleteOne (reaction_key messageId (sock_userId c)) (message_reactions d) \<and>
           filter (reaction_key messageId (sock_userId c)) (message_reactions d') = [] \<and>
           sent (receive E x sid (React_message messageId conversationId None) s) =
             sent s @ map (\<lambda>y. (sock_id y, Message_reaction_updated messageId rs))
                        (filter (in_room (room_of conversationId)) (sockets s)) \<and>
           rs = map (\<lambda>r. (r_user_id r, r_reaction r))
                  (filter (\<lambda>r. r_message_id r = messageId) (message_reactions d')) \<and>
           sock_userId c \<notin> fst ` set rs"
proof -
  let ?u = "sock_userId c"
  define rs' where "rs' = write_reaction (date1 x) messageId ?u None (message_reactions d)"
  have w: "rs' = deleteOne (reaction_key messageId ?u) (message_reactions d)"
    and e: "filter (reaction_key messageId ?u) rs' = []"
    using write_reaction_unset [OF _ assms(4), of None "date1 x"] by (simp_all add: rs'_def)
  have n: "?u \<notin> fst ` set (map (\<lambda>r. (r_user_id r, r_reaction r))
                 (filter (\<lambda>r. r_message_id r = messageId) rs'))"
  proof
    assume "?u \<in> fst ` set (map (\<lambda>r. (r_user_id r, r_reaction r))
                 (filter (\<lambda>r. r_message_id r = messageId) rs'))"
    then obtain r where "r \<in> set rs'" "r_message_id r = messageId" "r_user_id r = ?u"
      by auto
    then have "r \<in> set (filter (reaction_key messageId ?u) rs')"
      by (simp add: reaction_key_def)
    with e show False by simp
  qed
  show ?thesis
    using w e n
    by (simp add: react_message_step [OF assms(1,2,3) rs'_def] io_to_emit_def)
qed


theorem null_reaction_removes_record_witness:
  "map_option message_reactions (db bob_reacted) =
     Some [\<lparr>r_message_id = msg1, r_user_id = bob, r_reaction = ''heart'', r_created_at = 7\<rparr>] \<and>
   map_option message_reactions
     (db (receive demo_env demo_drawn ''sB'' (React_message msg1 conv1 None) bob_reacted)) = Some [] \<and>
   sent (receive demo_env demo_drawn ''sB'' (React_message msg1 conv1 None) bob_reacted) =
     sent bob_reacted @
       [(''sA'', Message_reaction_updated msg1 []), (''sB'', Message_reaction_updated msg1 [])]"
proof -
  let ?d = "demo_db\<lparr>message_reactions :=
              [\<lparr>r_message_id = msg1, r_user_id = bob, r_reaction = ''heart'', r_created_at = 7\<rparr>]\<rparr>"
  have s: "find (\<lambda>c. sock_id c = ''sB'') (sockets bob_reacted) = Some sockB"
    by (simp add: bob_reacted_eq demo_fields)
  have d: "db bob_reacted = Some ?d"
    by (simp add: bob_reacted_eq)
  have p: "find (\<lambda>p. p_conversation_id p = conv1 \<and> p_user_id p = sock_userId sockB)
             (conversation_participants ?d) \<noteq> None"
    using demo_participant(2) by simp
  have u: "length (filter (reaction_key msg1 (sock_userId sockB)) (message_reactions ?d)) \<le> 1"
    by simp
  have e: "deleteOne (reaction_key msg1 (sock_userId sockB)) (message_reactions ?d) = []"
    by (simp add: reaction_key_def demo_fields)
  have m: "sockets bob_reacted = [sockA, sockB]"
    by (simp add: bob_reacted_eq)
  from null_reaction_removes_record [OF s d p u, of demo_env demo_drawn] e
  show ?thesis
    by (auto simp: d m demo_fields)
qed


section \<open>History fetch\<close>

text \<open>What the fetch does with one message when only one kind of marker is present: with a
  personal marker of the viewer and no marker for everyone the message is dropped; with a
  marker for everyone and no personal marker of the viewer it is shown with the
  placeholder.\<close>

lemma enrich_personal_marker_only:
  assumes "ObjectId E (m_sender_id m) = Some so"
    and "\<exists>x \<in> set (message_deletions d).
           d_message_id x = toString E (m_id m) \<and> d_user_id x = viewer \<and> \<not> d_deleted_for_everyone x"
    and "\<forall>x \<in> set (message_deletions d).
           d_message_id x = toString E (m_id m) \<longrightarrow> \<not> d_deleted_for_everyone x"
  shows "enrich E d viewer m = Inr None"
proof -
  let ?q = "\<lambda>x. d_message_id x = toString E (m_id m) \<and>
                 (d_user_id x = viewer \<or> d_deleted_for_everyone x)"
  from assms(2) obtain y where "find ?q (message_deletions d) = Some y"
    by (cases "find ?q (message_deletions d)") (auto simp: find_None_iff)
  moreover from this have "y \<in> set (message_deletions d)" "?q y"
    by (auto simp: find_Some_iff)
  moreover from this assms(3) have "\<not> d_deleted_for_everyone y" "d_user_id y = viewer"
    by auto
  ultimately show ?thesis
    using assms(1) by (simp add: enrich_def)
qed

lemma enrich_everyone_marker_only:
  assumes "ObjectId E (m_sender_id m) = Some so"
    and "\<exists>x \<in> set (message_deletions d).
           d_message_id x = toString E (m_id m) \<and> d_deleted_for_everyone x"
    and "\<forall>x \<in> set (message_deletions d).
           d_message_id x = toString E (m_id m) \<and> d_user_id x = viewer \<longrightarrow> d_deleted_for_everyone x"
  shows "\<exists>v. enrich E d viewer m = Inr (Some v) \<and> v_content v = placeholder \<and>
             v_deleted_for_everyone v"
proof -
  let ?q = "\<lambda>x. d_message_id x = toString E (m_id m) \<and>
                 (d_user_id x = viewer \<or> d_deleted_for_everyone x)"
  from assms(2) obtain y where "find ?q (message_deletions d) = Some y"
    by (cases "find ?q (message_deletions d)") (auto simp: find_None_iff)
  moreover from this have "y \<in> set (message_deletions d)" "?q y"
    by (auto simp: find_Some_iff)
  moreover from this assms(3) have "d_deleted_for_everyone y"
    by auto
  ultimately show ?thesis
    using assms(1) by (simp add: enrich_def)
qed


lemma delete_for_everyone_step:
  assumes "find (\<lambda>c. sock_id c = sid) (sockets s) = Some c"
    and "db s = Some d"
    and "find (\<lambda>p. p_conversation_id p = conversationId \<and> p_user_id p = sock_userId c)
           (conversation_participants d) \<noteq> None"
    and "ObjectId E messageId = Some oid"
    and "find (\<lambda>m. m_id m = oid) (messages d) = Some msg"
    and "m_sender_id msg = sock_userId c"
  shows "receive E x sid (Delete_message messageId conversationId True) s =
           io_to_emit (room_of conversationId) (Message_deleted messageId True)
             (s\<lparr>db := Some (upsert_deletion messageId (sock_userId c) True d)\<rparr>)"
  using assms
  by (auto simp: receive_def delete_message_def isConversationParticipant_def getDb_def)

lemma delete_for_me_step:
  assumes "find (\<lambda>c. sock_id c = sid) (sockets s) = Some c"
    and "db s = Some d"
    and "find (\<lambda>p. p_conversation_id p = conversationId \<and> p_user_id p = sock_userId c)
           (conversation_participants d) \<noteq> None"
  shows "receive E x sid (Delete_message messageId conversationId False) s =
           socket_emit c (Message_deleted messageId False)
             (s\<lparr>db := Some (upsert_deletion messageId (sock_userId c) False d)\<rparr>)"
  using assms
  by (auto simp: receive_def delete_message_def isConversationParticipant_def getDb_def)

lemma everyone_then_me_db:
  "db everyone_then_me =
     Some (demo_db\<lparr>message_deletions :=
       [\<lparr>d_message_id = msg1, d_user_id = alice, d_deleted_for_everyone = True\<rparr>,
        \<lparr>d_message_id = msg1, d_user_id = bob, d_deleted_for_everyone = False\<rparr>]\<rparr>)"
proof -
  let ?d1 = "upsert_deletion msg1 (sock_userId sockA) True demo_db"
  let ?s1 = "receive demo_env demo_drawn ''sA'' (Delete_message msg1 conv1 True) demo_state"
  have a: "m_sender_id \<lparr>m_id = msg1, m_conversation_id = conv1, m_sender_id = alice,
             m_content = ''hi'', m_created_at = 1\<rparr> = sock_userId sockA"
    by (simp add: demo_fields)
  have s1: "?s1 = io_to_emit (room_of conv1) (Message_deleted msg1 True)
                    (demo_state\<lparr>db := Some ?d1\<rparr>)"
    by (rule delete_for_everyone_step
          [OF demo_socket(1) demo_db_connected demo_participant(1) demo_ObjectId(4) demo_message a])
  have d1: "?d1 = demo_db\<lparr>message_deletions :=
              [\<lparr>d_message_id = msg1, d_user_id = alice, d_deleted_for_everyone = True\<rparr>]\<rparr>"
    by (simp add: upsert_deletion_def demo_fields) (simp add: demo_db_def)
  have k1: "find (\<lambda>c. sock_id c = ''sB'') (sockets ?s1) = Some sockB"
    by (simp add: s1 io_to_emit_def demo_socket)
  have b1: "db ?s1 = Some ?d1"
    by (simp add: s1 io_to_emit_def)
  have p1: "find (\<lambda>p. p_conversation_id p = conv1 \<and> p_user_id p = sock_userId sockB)
              (conversation_participants ?d1) \<noteq> None"
    using demo_participant(2) by (simp add: upsert_deletion_def)
  have "db everyone_then_me = Some (upsert_deletion msg1 (sock_userId sockB) False ?d1)"
    unfolding everyone_then_me_def
    by (simp add: delete_for_me_step [OF k1 b1 p1] socket_emit_def)
  also have "upsert_deletion msg1 (sock_userId sockB) False ?d1 =
      demo_db\<lparr>message_deletions :=
       [\<lparr>d_message_id = msg1, d_user_id = alice, d_deleted_for_everyone = True\<rparr>,
        \<lparr>d_message_id = msg1, d_user_id = bob, d_deleted_for_everyone = False\<rparr>]\<rparr>"
    by (simp only: d1) (simp add: upsert_deletion_def deletion_key_def demo_fields demo_distinct)
  finally show ?thesis .
qed

lemma me_then_everyone_db:
  "db me_then_everyone =
     Some (demo_db\<lparr>message_deletions :=
       [\<lparr>d_message_id = msg1, d_user_id = bob, d_deleted_for_everyone = False\<rparr>,
        \<lparr>d_message_id = msg1, d_user_id = alice, d_deleted_for_everyone = True\<rparr>]\<rparr>)"
proof -
  let ?d1 = "upsert_deletion msg1 (sock_userId sockB) False demo_db"
  let ?s1 = "receive demo_env demo_drawn ''sB'' (Delete_message msg1 conv1 False) demo_state"
  have s1: "?s1 = socket_emit sockB (Message_deleted msg1 False) (demo_state\<lparr>db := Some ?d1\<rparr>)"
    by (rule delete_for_me_step [OF demo_socket(2) demo_db_connected demo_participant(2)])
  have d1: "?d1 = demo_db\<lparr>message_deletions :=
              [\<lparr>d_message_id = msg1, d_user_id = bob, d_deleted_for_everyone = False\<rparr>]\<rparr>"
    by (simp add: upsert_deletion_def demo_fields) (simp add: demo_db_def)
  have k1: "find (\<lambda>c. sock_id c = ''sA'') (sockets ?s1) = Some sockA"
    by (simp add: s1 socket_emit_def demo_socket)
  have b1: "db ?s1 = Some ?d1"
    by (simp add: s1 socket_emit_def)
  have p1: "find (\<lambda>p. p_conversation_id p = conv1 \<and> p_user_id p = sock_userId sockA)
              (conversation_participants ?d1) \<noteq> None"
    using demo_participant(1) by (simp add: upsert_deletion_def)
  have m1: "find (\<lambda>m. m_id m = msg1) (messages ?d1) =
     Some \<lparr>m_id = msg1, m_conversation_id = conv1, m_sender_id = alice,
           m_content = ''hi'', m_created_at = 1\<rparr>"
    by (simp add: upsert_deletion_def demo_message)
  have a: "m_sender_id \<lparr>m_id = msg1, m_conversation_id = conv1, m_sender_id = alice,
             m_content = ''hi'', m_created_at = 1\<rparr> = sock_userId sockA"
    by (simp add: demo_fields)
  have "db me_then_everyone = Some (upsert_deletion msg1 (sock_userId sockA) True ?d1)"
    unfolding me_then_everyone_def
    by (simp add: delete_for_everyone_step [OF k1 b1 p1 demo_ObjectId(4) m1 a] io_to_emit_def)
  also have "upsert_deletion msg1 (sock_userId sockA) True ?d1 =
      demo_db\<lparr>message_deletions :=
       [\<lparr>d_message_id = msg1, d_user_id = bob, d_deleted_for_everyone = False\<rparr>,
        \<lparr>d_message_id = msg1, d_user_id = alice, d_deleted_for_everyone = True\<rparr>]\<rparr>"
    by (simp only: d1) (simp add: upsert_deletion_def deletion_key_def demo_fields demo_distinct)
  finally show ?thesis .
qed

text \<open>
  Claim C1 says that a personal marker of the viewer always excludes the message, also when
  a marker for everyone exists. The fetch reads one marker only, the first that matches
  either condition. After Alice has deleted her message for everyone and Bob has then
  deleted it for himself, both markers are stored, the marker for everyone first, and Bob's
  history shows the message with the placeholder instead of leaving it out.
\<close>

theorem personal_marker_behind_everyone_marker_is_not_excluded:
  "map_option message_deletions (db everyone_then_me) =
     Some [\<lparr>d_message_id = msg1, d_user_id = alice, d_deleted_for_everyone = True\<rparr>,
           \<lparr>d_message_id = msg1, d_user_id = bob, d_deleted_for_everyone = False\<rparr>] \<and>
   get_conversation demo_env everyone_then_me bob conv1 =
     Json [\<lparr>v_id = msg1, v_conversation_id = conv1, v_content = ''[Message deleted]'',
            v_created_at = 1,
            v_sender = Some \<lparr>sv_id = alice, sv_first_name = ''Alice'', sv_last_name = ''A'',
                              sv_avatar_url = None\<rparr>,
            v_reactions = [], v_deleted_for_everyone = True\<rparr>]"
  by (simp add: get_conversation_def getDb_def everyone_then_me_db demo_history_inputs
        enrich_def demo_ObjectId demo_distinct sender_view_of_def placeholder_def)


text \<open>With the same two requests in the other order Bob's marker is found first and the
  message is left out.\<close>

lemma other_order_excludes:
  "get_conversation demo_env me_then_everyone bob conv1 = Json []"
  by (simp add: get_conversation_def getDb_def me_then_everyone_db demo_history_inputs
        enrich_def demo_ObjectId demo_distinct sender_view_of_def placeholder_def)


end
